theory Spec2Isabelle
  imports Complex_Main "HOL-Library.Word" "HOL-Library.AList"
begin

section \<open>Python values used by optimize-images.py\<close>

text \<open>
  The script is a Python program built on \<^verbatim>\<open>pathlib\<close> and Pillow. Its three functions
  \<^verbatim>\<open>optimize_image\<close>, \<^verbatim>\<open>optimize_directory\<close> and \<^verbatim>\<open>main\<close> are embedded below as
  functions on an explicit world (file system, standard output). Every exception the
  script can meet is a value of \<open>py_error\<close>; all of them are subclasses of Python's
  \<^verbatim>\<open>Exception\<close>, so the handler \<^verbatim>\<open>except Exception\<close> catches each of them.
\<close>

datatype py_error =
    FileNotFoundError | FileExistsError | NotADirectoryError | IsADirectoryError
  | PermissionError | UnidentifiedImageError | ValueError | ZeroDivisionError
  | OverflowError | MemoryError | EOFError | OSError

subsection \<open>Double-precision arithmetic\<close>

text \<open>
  Lines 60 and 61 compute \<^verbatim>\<open>ratio = max_width / original_width\<close> and
  \<^verbatim>\<open>int(original_height * ratio)\<close> in Python floats, which are IEEE 754 binary64
  numbers. A finite non-negative double is written here as a pair \<open>(m, e)\<close> standing for
  \<open>m * 2 ^ e\<close>; signs are carried separately. \<open>fl_quot a b\<close> is the double nearest to
  the rational \<open>a / b\<close> (ties to even, 53 significant bits, gradual underflow below
  \<open>2 ^ -1022\<close>), which is what Python's true division of integers and its conversion of
  an integer to a float return.
\<close>

fun bit_length :: "nat \<Rightarrow> nat" where
  "bit_length n = (if n = 0 then 0 else Suc (bit_length (n div 2)))"

declare bit_length.simps [simp del]

definition rne_div :: "nat \<Rightarrow> nat \<Rightarrow> nat" where
  "rne_div n d =
     (let q = n div d; r = n mod d
      in if 2 * r < d then q else if d < 2 * r then q + 1 else if even q then q else q + 1)"

type_synonym double = "nat \<times> int"

definition fl_quot :: "nat \<Rightarrow> nat \<Rightarrow> double" where
  "fl_quot a b =
     (if a = 0 then (0, 0)
      else let e0 = int (bit_length a) - int (bit_length b);
               lg = (if b * 2 ^ nat e0 \<le> a * 2 ^ nat (- e0) then e0 else e0 - 1);
               t = max (lg - 52) (- 1074)
           in (rne_div (a * 2 ^ nat (- t)) (b * 2 ^ nat t), t))"

text \<open>A rounded result of magnitude \<open>2 ^ 1024\<close> or more is an overflow.\<close>

definition is_inf :: "double \<Rightarrow> bool" where
  "is_inf x = (case x of (q, t) \<Rightarrow> 0 < q \<and> 1024 < int (bit_length q) + t)"

definition float_mul :: "double \<Rightarrow> double \<Rightarrow> double" where
  "float_mul x y =
     (case x of (m1, e1) \<Rightarrow> case y of (m2, e2) \<Rightarrow>
        let m = m1 * m2; e = e1 + e2
        in if 0 \<le> e then fl_quot (m * 2 ^ nat e) 1 else fl_quot m (2 ^ nat (- e)))"

definition float_trunc :: "double \<Rightarrow> nat" where
  "float_trunc x =
     (case x of (q, t) \<Rightarrow> if 0 \<le> t then q * 2 ^ nat t else q div 2 ^ nat (- t))"

text \<open>
  \<^verbatim>\<open>int(original_height * (max_width / original_width))\<close>. Division by zero raises
  \<^verbatim>\<open>ZeroDivisionError\<close>; a quotient or an integer too large for a float raises
  \<^verbatim>\<open>OverflowError\<close>, and so does \<^verbatim>\<open>int\<close> of an infinite product. Rounding to nearest
  and truncation toward zero are both symmetric, so the sign of \<open>max_width\<close> is applied
  to the truncated magnitude.
\<close>

definition scaled_height :: "nat \<Rightarrow> nat \<Rightarrow> int \<Rightarrow> py_error + int" where
  "scaled_height original_height original_width max_width =
     (if original_width = 0 then Inl ZeroDivisionError
      else let ratio = fl_quot (nat \<bar>max_width\<bar>) original_width
           in if is_inf ratio then Inl OverflowError
              else let h = fl_quot original_height 1
                   in if is_inf h then Inl OverflowError
                      else let p = float_mul h ratio
                           in if is_inf p then Inl OverflowError
                              else Inr (sgn max_width * int (float_trunc p)))"

subsection \<open>Paths\<close>

text \<open>
  A \<^verbatim>\<open>pathlib.Path\<close> is its tuple of parts: the components in order, headed by the
  anchor \<open>''/''\<close> for an absolute path. \<open>Path\<close> parses a string as the constructor does:
  it splits at slashes and drops empty components and single dots; \<^verbatim>\<open>..\<close> is kept.
  \<open>stem\<close> and \<open>suffix\<close> cut the final component at its last dot, unless that dot is the
  first or the last character.
\<close>

type_synonym path = "string list"

fun split_slash :: "string \<Rightarrow> string list" where
  "split_slash [] = [[]]"
| "split_slash (c # cs) =
     (if c = CHR ''/'' then [] # split_slash cs
      else (case split_slash cs of [] \<Rightarrow> [[c]] | x # xs \<Rightarrow> (c # x) # xs))"

definition Path :: "string \<Rightarrow> path" where
  "Path s =
     (let parts = filter (\<lambda>c. c \<noteq> [] \<and> c \<noteq> ''.'') (split_slash s);
          n = length (takeWhile (\<lambda>c. c = CHR ''/'') s)
      in if n = 2 then ''//'' # parts else if 1 \<le> n then ''/'' # parts else parts)"

definition is_root :: "path \<Rightarrow> bool" where
  "is_root p = (p = [] \<or> p = [''/''] \<or> p = [''//''])"

definition parent :: "path \<Rightarrow> path" where
  "parent p = (if is_root p then p else butlast p)"

definition name :: "path \<Rightarrow> string" where
  "name p = (if is_root p then [] else last p)"

definition rfind_dot :: "string \<Rightarrow> nat option" where
  "rfind_dot s =
     (if CHR ''.'' \<in> set s
      then Some (length s - 1 - length (takeWhile (\<lambda>c. c \<noteq> CHR ''.'') (rev s)))
      else None)"

definition suffix :: "path \<Rightarrow> string" where
  "suffix p =
     (let n = name p
      in case rfind_dot n of
           None \<Rightarrow> []
         | Some i \<Rightarrow> if 0 < i \<and> i + 1 < length n then drop i n else [])"

definition stem :: "path \<Rightarrow> string" where
  "stem p =
     (let n = name p
      in case rfind_dot n of
           None \<Rightarrow> n
         | Some i \<Rightarrow> if 0 < i \<and> i + 1 < length n then take i n else n)"

text \<open>The operator \<^verbatim>\<open>/\<close> with a string on the right: an absolute right side replaces the left.\<close>

definition joinpath :: "path \<Rightarrow> string \<Rightarrow> path" where
  "joinpath p s =
     (let q = Path s
      in if q \<noteq> [] \<and> (hd q = ''/'' \<or> hd q = ''//'') then q else p @ q)"

text \<open>
  \<^verbatim>\<open>str.lower\<close>. Only the letters A to Z are mapped: no other character lowers to a
  character of the seven supported suffixes, so membership in \<open>supported_formats\<close> is
  decided as in Python.
\<close>

definition lower_char :: "char \<Rightarrow> char" where
  "lower_char c =
     (case map_of (zip ''ABCDEFGHIJKLMNOPQRSTUVWXYZ'' ''abcdefghijklmnopqrstuvwxyz'') c of
        None \<Rightarrow> c
      | Some l \<Rightarrow> l)"

definition lower :: "string \<Rightarrow> string" where
  "lower s = map lower_char s"

definition supported_formats :: "string set" where
  "supported_formats =
     {''.png'', ''.jpg'', ''.jpeg'', ''.gif'', ''.bmp'', ''.tiff'', ''.webp''}"

subsection \<open>Images\<close>

text \<open>
  A decoded Pillow image has a size and, depending on its mode, a grid of pixels: three
  bytes for \<^verbatim>\<open>RGB\<close>, four for \<^verbatim>\<open>RGBA\<close>, luminance and alpha for \<^verbatim>\<open>LA\<close>, a palette index for
  \<^verbatim>\<open>P\<close> (the palette gives each index its colour and, from the file's transparency
  information, its alpha). Every other mode keeps its raw data. A grid is a function of
  the column and the row.
\<close>

type_synonym byte = "8 word"
type_synonym rgb = "byte \<times> byte \<times> byte"
type_synonym rgba = "byte \<times> byte \<times> byte \<times> byte"
type_synonym 'a grid = "nat \<Rightarrow> nat \<Rightarrow> 'a"

datatype other_mode =
    Mode_1 | Mode_L | Mode_I | Mode_F | Mode_CMYK | Mode_YCbCr | Mode_LAB | Mode_HSV
  | Mode_PA | Mode_RGBX | Mode_RGBa | Mode_La | Mode_I16

datatype raster =
    RGB "rgb grid"
  | RGBA "rgba grid"
  | LA "(byte \<times> byte) grid"
  | P "byte \<Rightarrow> rgba" "byte grid"
  | Other other_mode "byte list grid"

record image =
  width :: nat
  height :: nat
  data :: raster

text \<open>
  What Pillow and the Python runtime compute outside the script is a parameter of the
  model: the decoder behind \<^verbatim>\<open>Image.open\<close>, \<^verbatim>\<open>convert('RGB')\<close> on the remaining modes, the
  Lanczos filter (from the old and the new size), the WebP encoder called with
  \<^verbatim>\<open>method=6, lossless=False\<close> at a quality, and \<^verbatim>\<open>int\<close> applied to a string
  (\<open>None\<close> is \<^verbatim>\<open>ValueError\<close>).
\<close>

record library =
  decode :: "byte list \<Rightarrow> py_error + image"
  convert_RGB :: "other_mode \<Rightarrow> byte list grid \<Rightarrow> py_error + rgb grid"
  lanczos :: "nat \<times> nat \<Rightarrow> nat \<times> nat \<Rightarrow> rgb grid \<Rightarrow> py_error + rgb grid"
  encode_webp :: "int \<Rightarrow> nat \<times> nat \<Rightarrow> rgb grid \<Rightarrow> py_error + byte list"
  py_int :: "string \<Rightarrow> int option"

text \<open>
  \<^verbatim>\<open>paste\<close> with a mask blends each channel as Pillow's \<^verbatim>\<open>BLEND8\<close> does: the weighted
  sum of destination and source, divided by 255 with rounding. Without a mask it copies
  the three colour bytes of the source and ignores its alpha band; an \<^verbatim>\<open>LA\<close> image is
  stored as (L, L, L, A).
\<close>

definition div255 :: "nat \<Rightarrow> nat" where
  "div255 a = (let tmp = a + 128 in (tmp div 256 + tmp) div 256)"

definition blend8 :: "byte \<Rightarrow> byte \<Rightarrow> byte \<Rightarrow> byte" where
  "blend8 m in1 in2 = of_nat (div255 (unat in1 * (255 - unat m) + unat in2 * unat m))"

definition new_RGB :: "rgb \<Rightarrow> rgb grid" where
  "new_RGB colour = (\<lambda>x y. colour)"

definition convert_RGBA :: "(byte \<Rightarrow> rgba) \<Rightarrow> byte grid \<Rightarrow> rgba grid" where
  "convert_RGBA palette g = (\<lambda>x y. palette (g x y))"

definition storage_LA :: "(byte \<times> byte) grid \<Rightarrow> rgba grid" where
  "storage_LA g = (\<lambda>x y. case g x y of (l, a) \<Rightarrow> (l, l, l, a))"

definition split_last :: "rgba grid \<Rightarrow> byte grid" where
  "split_last g = (\<lambda>x y. case g x y of (r, gr, b, a) \<Rightarrow> a)"

definition paste :: "rgb grid \<Rightarrow> rgba grid \<Rightarrow> byte grid option \<Rightarrow> rgb grid" where
  "paste background src msk =
     (\<lambda>x y. case src x y of (r, g, b, a) \<Rightarrow>
        (case msk of
           None \<Rightarrow> (r, g, b)
         | Some m \<Rightarrow>
             (case background x y of (r0, g0, b0) \<Rightarrow>
                (blend8 (m x y) r0 r, blend8 (m x y) g0 g, blend8 (m x y) b0 b))))"

text \<open>
  Lines 45 to 52. The mask is the alpha band only when the mode is \<^verbatim>\<open>RGBA\<close> at that
  point (an \<^verbatim>\<open>RGBA\<close> image, or a \<^verbatim>\<open>P\<close> image after \<^verbatim>\<open>convert('RGBA')\<close>); an \<^verbatim>\<open>LA\<close> image
  is pasted with \<^verbatim>\<open>mask=None\<close>.
\<close>

definition white :: rgb where
  "white = (255, 255, 255)"

definition to_RGB :: "library \<Rightarrow> raster \<Rightarrow> py_error + rgb grid" where
  "to_RGB L img =
     (case img of
        RGBA g \<Rightarrow> Inr (paste (new_RGB white) g (Some (split_last g)))
      | LA g \<Rightarrow> Inr (paste (new_RGB white) (storage_LA g) None)
      | P palette idx \<Rightarrow>
          (let g = convert_RGBA palette idx
           in Inr (paste (new_RGB white) g (Some (split_last g))))
      | RGB g \<Rightarrow> Inr g
      | Other m raw \<Rightarrow> convert_RGB L m raw)"

text \<open>
  \<^verbatim>\<open>Image.resize\<close> on an \<^verbatim>\<open>RGB\<close> image: the same size returns a copy, a width or height
  below 1 raises \<^verbatim>\<open>ValueError\<close>, otherwise the filter produces the new grid.
\<close>

definition resize ::
  "library \<Rightarrow> nat \<times> nat \<Rightarrow> rgb grid \<Rightarrow> int \<times> int \<Rightarrow> py_error + (nat \<times> nat) \<times> rgb grid" where
  "resize L sz g new =
     (case new of (w, h) \<Rightarrow>
        if (int (fst sz), int (snd sz)) = (w, h) then Inr (sz, g)
        else if w < 1 \<or> h < 1 then Inl ValueError
        else (case lanczos L sz (nat w, nat h) g of
                Inl e \<Rightarrow> Inl e
              | Inr g' \<Rightarrow> Inr ((nat w, nat h), g')))"

section \<open>The world: file system and standard output\<close>

text \<open>
  The file system maps a path to a regular file with its bytes or to a directory; it is
  an association list, whose order is the order in which \<^verbatim>\<open>iterdir\<close> lists entries. A
  path is the identity of a file: there are no links, and two different paths are two
  different files. The current directory and the root always exist. \<open>locked\<close> holds the
  paths at which the operating system refuses to create or write (\<^verbatim>\<open>PermissionError\<close>).
\<close>

datatype node = File "byte list" | Dir

record filesystem =
  files :: "(path \<times> node) list"
  locked :: "path set"

definition lookup :: "filesystem \<Rightarrow> path \<Rightarrow> node option" where
  "lookup F p = (if is_root p then Some Dir else map_of (files F) p)"

definition exists :: "filesystem \<Rightarrow> path \<Rightarrow> bool" where
  "exists F p = (lookup F p \<noteq> None)"

definition is_file :: "filesystem \<Rightarrow> path \<Rightarrow> bool" where
  "is_file F p = (case lookup F p of Some (File bs) \<Rightarrow> True | _ \<Rightarrow> False)"

definition is_dir :: "filesystem \<Rightarrow> path \<Rightarrow> bool" where
  "is_dir F p = (lookup F p = Some Dir)"

definition put :: "filesystem \<Rightarrow> path \<Rightarrow> node \<Rightarrow> filesystem" where
  "put F p n = F\<lparr>files := AList.update p n (files F)\<rparr>"

definition remove :: "filesystem \<Rightarrow> path \<Rightarrow> filesystem" where
  "remove F p = F\<lparr>files := AList.delete p (files F)\<rparr>"

text \<open>\<^verbatim>\<open>os.mkdir\<close>: one directory, whose parent must be a directory.\<close>

definition os_mkdir :: "filesystem \<Rightarrow> path \<Rightarrow> py_error + filesystem" where
  "os_mkdir F p =
     (if exists F p then Inl FileExistsError
      else (case lookup F (parent p) of
              None \<Rightarrow> Inl FileNotFoundError
            | Some (File bs) \<Rightarrow> Inl NotADirectoryError
            | Some Dir \<Rightarrow> if p \<in> locked F then Inl PermissionError else Inr (put F p Dir)))"

text \<open>
  \<^verbatim>\<open>Path.mkdir(parents=True, exist_ok=True)\<close>, as pathlib writes it: try \<^verbatim>\<open>os.mkdir\<close>; on
  \<^verbatim>\<open>FileNotFoundError\<close> make the parent first and then the directory itself; any other
  \<^verbatim>\<open>OSError\<close> is swallowed exactly when the path is a directory already. The file
  system comes back in both cases: parents made before a failure stay.
\<close>

definition mkdir_exist_ok :: "filesystem \<Rightarrow> path \<Rightarrow> py_error option \<times> filesystem" where
  "mkdir_exist_ok F p =
     (case os_mkdir F p of
        Inr F' \<Rightarrow> (None, F')
      | Inl e \<Rightarrow>
          if e = FileNotFoundError then (Some e, F)
          else if is_dir F p then (None, F) else (Some e, F))"

function mkdir_parents :: "filesystem \<Rightarrow> path \<Rightarrow> py_error option \<times> filesystem" where
  "mkdir_parents F p =
     (case os_mkdir F p of
        Inr F' \<Rightarrow> (None, F')
      | Inl e \<Rightarrow>
          if e = FileNotFoundError then
            (if parent p = p then (Some e, F)
             else (case mkdir_parents F (parent p) of
                     (Some e', F') \<Rightarrow> (Some e', F')
                   | (None, F') \<Rightarrow> mkdir_exist_ok F' p))
          else if is_dir F p then (None, F) else (Some e, F))"
  by pat_completeness auto
termination
  by (relation "measure (\<lambda>(F, p). length p)")
    (auto simp: parent_def is_root_def split: if_splits)

declare mkdir_parents.simps [simp del]

text \<open>
  \<^verbatim>\<open>Image.save(output_path, 'WebP', ...)\<close>: Pillow opens the file for writing, which
  creates or truncates it, then encodes and writes; when the encoder raises, it removes
  the file if the call had created it, and raises again.
\<close>

definition open_wb :: "filesystem \<Rightarrow> path \<Rightarrow> py_error + filesystem" where
  "open_wb F p =
     (case lookup F p of
        Some Dir \<Rightarrow> Inl IsADirectoryError
      | Some (File bs) \<Rightarrow> if p \<in> locked F then Inl PermissionError else Inr (put F p (File []))
      | None \<Rightarrow>
          (case lookup F (parent p) of
             None \<Rightarrow> Inl FileNotFoundError
           | Some (File bs) \<Rightarrow> Inl NotADirectoryError
           | Some Dir \<Rightarrow>
               if p \<in> locked F then Inl PermissionError else Inr (put F p (File []))))"

definition save ::
  "library \<Rightarrow> filesystem \<Rightarrow> path \<Rightarrow> nat \<times> nat \<Rightarrow> rgb grid \<Rightarrow> int
     \<Rightarrow> py_error option \<times> filesystem" where
  "save L F p sz g quality =
     (let created = \<not> exists F p
      in case open_wb F p of
           Inl e \<Rightarrow> (Some e, F)
         | Inr F1 \<Rightarrow>
             (case encode_webp L quality sz g of
                Inl e \<Rightarrow> (Some e, if created then remove F1 p else F1)
              | Inr bs \<Rightarrow> (None, put F1 p (File bs))))"

text \<open>
  \<^verbatim>\<open>Image.open\<close> and \<^verbatim>\<open>Path.stat().st_size\<close>. The size of a directory depends on the file
  system; the script never asks for it, since opening or saving fails on a directory
  first.
\<close>

definition image_open :: "library \<Rightarrow> filesystem \<Rightarrow> path \<Rightarrow> py_error + image" where
  "image_open L F p =
     (case lookup F p of
        None \<Rightarrow> Inl FileNotFoundError
      | Some Dir \<Rightarrow> Inl IsADirectoryError
      | Some (File bs) \<Rightarrow> decode L bs)"

definition st_size :: "filesystem \<Rightarrow> path \<Rightarrow> py_error + nat" where
  "st_size F p =
     (case lookup F p of
        None \<Rightarrow> Inl FileNotFoundError
      | Some Dir \<Rightarrow> Inr 0
      | Some (File bs) \<Rightarrow> Inr (length bs))"

text \<open>
  \<^verbatim>\<open>Path.iterdir\<close>: the entries directly inside a directory, each once, in the order of
  the file system.
\<close>

definition entries :: "filesystem \<Rightarrow> path \<Rightarrow> path list" where
  "entries F d = remdups (filter (\<lambda>p. \<not> is_root p \<and> butlast p = d) (map fst (files F)))"

definition iterdir :: "filesystem \<Rightarrow> path \<Rightarrow> py_error + path list" where
  "iterdir F d =
     (case lookup F d of
        None \<Rightarrow> Inl FileNotFoundError
      | Some (File bs) \<Rightarrow> Inl NotADirectoryError
      | Some Dir \<Rightarrow> Inr (entries F d))"

text \<open>
  The world of a run is the file system and what has been printed: each \<^verbatim>\<open>print\<close>
  appends an event carrying the values printed. \<open>calls\<close> is not state of the program:
  it records, for the statements about invocations, the argument of every call of
  \<open>optimize_image\<close>.
\<close>

datatype event =
    Print_file_not_found path
  | Print_processing string
  | Print_resized nat nat int int
  | Print_no_resize nat nat
  | Print_sizes nat nat
  | Print_saved path
  | Print_blank
  | Print_error string py_error
  | Print_dir_not_found path
  | Print_no_images path
  | Print_found nat
  | Print_input path
  | Print_output "string option" path
  | Print_max_width int
  | Print_quality int
  | Print_complete nat nat
  | Print_banner
  | Print_usage
  | Print_invalid_width string
  | Print_invalid_quality string
  | Print_unknown_argument string
  | Print_prompt
  | Print_invalid_input
  | Print_no_width
  | Print_not_file_or_dir path

record world =
  fs :: filesystem
  stdout :: "event list"
  calls :: "path list"

datatype 'a outcome = Returned 'a world | Raised py_error world

definition world_of :: "'a outcome \<Rightarrow> world" where
  "world_of r = (case r of Returned x w \<Rightarrow> w | Raised e w \<Rightarrow> w)"

definition print :: "world \<Rightarrow> event \<Rightarrow> world" where
  "print w e = w\<lparr>stdout := stdout w @ [e]\<rparr>"

section \<open>optimize\_image\<close>

text \<open>Lines 58 to 65: resize when the image is wider than \<open>max_width\<close>.\<close>

definition scale ::
  "library \<Rightarrow> world \<Rightarrow> nat \<times> nat \<Rightarrow> rgb grid \<Rightarrow> int
     \<Rightarrow> py_error + ((nat \<times> nat) \<times> rgb grid) \<times> world" where
  "scale L w sz g max_width =
     (case sz of (original_width, original_height) \<Rightarrow>
        if max_width < int original_width then
          (case scaled_height original_height original_width max_width of
             Inl e \<Rightarrow> Inl e
           | Inr new_height \<Rightarrow>
               (case resize L sz g (max_width, new_height) of
                  Inl e \<Rightarrow> Inl e
                | Inr img \<Rightarrow>
                    Inr (img, print w (Print_resized original_width original_height
                                         max_width new_height))))
        else Inr ((sz, g), print w (Print_no_resize original_width original_height)))"

text \<open>
  Lines 40 to 84, the body of the \<^verbatim>\<open>try\<close>: \<open>Some e\<close> is the exception that leaves it.
  The percentage divides by the size of the input file, so an empty input file raises
  \<^verbatim>\<open>ZeroDivisionError\<close> after the output has been saved.
\<close>

definition process ::
  "library \<Rightarrow> world \<Rightarrow> path \<Rightarrow> path \<Rightarrow> int \<Rightarrow> int \<Rightarrow> py_error option \<times> world" where
  "process L w input_path output_path max_width quality =
     (let w1 = print w (Print_processing (name input_path))
      in case image_open L (fs w1) input_path of
           Inl e \<Rightarrow> (Some e, w1)
         | Inr img \<Rightarrow>
         (case to_RGB L (data img) of
           Inl e \<Rightarrow> (Some e, w1)
         | Inr g \<Rightarrow>
         (case st_size (fs w1) input_path of
           Inl e \<Rightarrow> (Some e, w1)
         | Inr original_size \<Rightarrow>
         (case scale L w1 (width img, height img) g max_width of
           Inl e \<Rightarrow> (Some e, w1)
         | Inr ((sz', g'), w2) \<Rightarrow>
         (case save L (fs w2) output_path sz' g' quality of
           (Some e, F) \<Rightarrow> (Some e, w2\<lparr>fs := F\<rparr>)
         | (None, F) \<Rightarrow>
         (case st_size F output_path of
           Inl e \<Rightarrow> (Some e, w2\<lparr>fs := F\<rparr>)
         | Inr output_size \<Rightarrow>
             if original_size = 0 then (Some ZeroDivisionError, w2\<lparr>fs := F\<rparr>)
             else (None, print (print (print (w2\<lparr>fs := F\<rparr>)
                                  (Print_sizes original_size output_size))
                                  (Print_saved output_path)) Print_blank)))))))"

text \<open>
  Lines 29 to 37. \<^verbatim>\<open>if output_dir:\<close> is Python truthiness: \<^verbatim>\<open>None\<close> and the empty
  string both select the parent of the input. The \<^verbatim>\<open>mkdir\<close> stands before the \<^verbatim>\<open>try\<close>,
  so its exception leaves \<open>optimize_image\<close>.
\<close>

definition output_dir_of :: "path \<Rightarrow> string option \<Rightarrow> path" where
  "output_dir_of input_path output_dir =
     (case output_dir of
        None \<Rightarrow> parent input_path
      | Some d \<Rightarrow> if d \<noteq> [] then Path d else parent input_path)"

definition output_path_of :: "path \<Rightarrow> string option \<Rightarrow> path" where
  "output_path_of input_path output_dir =
     joinpath (output_dir_of input_path output_dir) (stem input_path @ ''.webp'')"

definition set_output_directory ::
  "filesystem \<Rightarrow> string option \<Rightarrow> py_error option \<times> filesystem" where
  "set_output_directory F output_dir =
     (case output_dir of
        None \<Rightarrow> (None, F)
      | Some d \<Rightarrow> if d \<noteq> [] then mkdir_parents F (Path d) else (None, F))"

definition optimize_image ::
  "library \<Rightarrow> world \<Rightarrow> path \<Rightarrow> string option \<Rightarrow> int \<Rightarrow> int \<Rightarrow> bool outcome" where
  "optimize_image L w0 input_path output_dir max_width quality =
     (let w = w0\<lparr>calls := calls w0 @ [input_path]\<rparr>
      in if \<not> exists (fs w) input_path
         then Returned False (print w (Print_file_not_found input_path))
         else (case set_output_directory (fs w) output_dir of
                 (Some e, F) \<Rightarrow> Raised e (w\<lparr>fs := F\<rparr>)
               | (None, F) \<Rightarrow>
                   (case process L (w\<lparr>fs := F\<rparr>) input_path
                           (output_path_of input_path output_dir) max_width quality of
                      (None, w2) \<Rightarrow> Returned True w2
                    | (Some e, w2) \<Rightarrow>
                        Returned False
                          (print (print w2 (Print_error (name input_path) e)) Print_blank))))"

section \<open>optimize\_directory\<close>

text \<open>Lines 129 to 132: the loop over the images, counting the successes.\<close>

fun optimize_each ::
  "library \<Rightarrow> world \<Rightarrow> path list \<Rightarrow> string option \<Rightarrow> int \<Rightarrow> int \<Rightarrow> nat \<Rightarrow> nat outcome" where
  "optimize_each L w [] output_dir max_width quality success_count =
     Returned success_count w"
| "optimize_each L w (img_path # images) output_dir max_width quality success_count =
     (case optimize_image L w img_path output_dir max_width quality of
        Raised e w' \<Rightarrow> Raised e w'
      | Returned ok w' \<Rightarrow>
          optimize_each L w' images output_dir max_width quality
            (if ok then success_count + 1 else success_count))"

definition find_images :: "filesystem \<Rightarrow> path \<Rightarrow> path list" where
  "find_images F input_dir =
     filter (\<lambda>f. is_file F f \<and> lower (suffix f) \<in> supported_formats) (entries F input_dir)"

definition optimize_directory ::
  "library \<Rightarrow> world \<Rightarrow> path \<Rightarrow> string option \<Rightarrow> int \<Rightarrow> int \<Rightarrow> unit outcome" where
  "optimize_directory L w input_dir output_dir max_width quality =
     (if \<not> exists (fs w) input_dir
      then Returned () (print w (Print_dir_not_found input_dir))
      else (case iterdir (fs w) input_dir of
              Inl e \<Rightarrow> Raised e w
            | Inr listing \<Rightarrow>
                (let images = filter (\<lambda>f. is_file (fs w) f \<and>
                                            lower (suffix f) \<in> supported_formats) listing
                 in if images = [] then Returned () (print w (Print_no_images input_dir))
                    else (let w1 = print (print (print (print (print (print w
                                     (Print_found (length images)))
                                     (Print_input input_dir))
                                     (Print_output output_dir input_dir))
                                     (Print_max_width max_width))
                                     (Print_quality quality))
                                     Print_blank
                          in case optimize_each L w1 images output_dir max_width quality 0 of
                               Raised e w2 \<Rightarrow> Raised e w2
                             | Returned success_count w2 \<Rightarrow>
                                 Returned ()
                                   (print w2 (Print_complete success_count (length images)))))))"

section \<open>main\<close>

text \<open>
  The command line: \<open>argv\<close>, whether standard input is a terminal, and the line that
  \<^verbatim>\<open>input\<close> would read (\<open>None\<close> at end of input, which raises \<^verbatim>\<open>EOFError\<close>). The result is
  the exit status of the process with the final world; an exception that nothing
  catches ends the interpreter with status 1.
\<close>

datatype 'a step = Continue 'a world | Exit nat world

fun parse_arguments ::
  "library \<Rightarrow> world \<Rightarrow> string list \<Rightarrow> string option \<times> int option \<times> int
     \<Rightarrow> (string option \<times> int option \<times> int) step" where
  "parse_arguments L w [] opts = Continue opts w"
| "parse_arguments L w [a] opts = Continue opts (print w (Print_unknown_argument a))"
| "parse_arguments L w (a # v # rest) (output_dir, max_width, quality) =
     (if a = ''--output'' then parse_arguments L w rest (Some v, max_width, quality)
      else if a = ''--width'' then
        (case py_int L v of
           None \<Rightarrow> Exit 1 (print w (Print_invalid_width v))
         | Some n \<Rightarrow>
             if n \<le> 0 then Exit 1 (print w (Print_invalid_width v))
             else parse_arguments L w rest (output_dir, Some n, quality))
      else if a = ''--quality'' then
        (case py_int L v of
           None \<Rightarrow> Exit 1 (print w (Print_invalid_quality v))
         | Some n \<Rightarrow>
             if \<not> (0 \<le> n \<and> n \<le> 100) then Exit 1 (print w (Print_invalid_quality v))
             else parse_arguments L w rest (output_dir, max_width, n))
      else parse_arguments L (print w (Print_unknown_argument a)) (v # rest)
             (output_dir, max_width, quality))"

definition is_space :: "char \<Rightarrow> bool" where
  "is_space c = (c \<in> set [CHR '' '', CHR 0x09, CHR 0x0A, CHR 0x0B, CHR 0x0C, CHR 0x0D])"

definition strip :: "string \<Rightarrow> string" where
  "strip s = rev (dropWhile is_space (rev (dropWhile is_space s)))"

definition prompt_width ::
  "library \<Rightarrow> world \<Rightarrow> bool \<Rightarrow> string option \<Rightarrow> int option \<Rightarrow> int step" where
  "prompt_width L w isatty line max_width =
     (case max_width of
        Some n \<Rightarrow> Continue n w
      | None \<Rightarrow>
          if isatty then
            (let w1 = print w Print_prompt
             in case line of
                  None \<Rightarrow> Exit 1 w1
                | Some s \<Rightarrow>
                    (let user_input = strip s
                     in if user_input = [] then Continue 300 w1
                        else (case py_int L user_input of
                                None \<Rightarrow> Continue 300 (print w1 Print_invalid_input)
                              | Some n \<Rightarrow>
                                  if n \<le> 0 then Continue 300 (print w1 Print_invalid_input)
                                  else Continue n w1)))
          else Continue 300 (print w Print_no_width))"

definition status_of :: "'a outcome \<Rightarrow> nat \<times> world" where
  "status_of r = (case r of Returned x w \<Rightarrow> (0, w) | Raised e w \<Rightarrow> (1, w))"

definition main ::
  "library \<Rightarrow> world \<Rightarrow> string list \<Rightarrow> bool \<Rightarrow> string option \<Rightarrow> nat \<times> world" where
  "main L w0 argv isatty line =
     (let w = print w0 Print_banner
      in if length argv < 2 then (1, print w Print_usage)
         else (let input_path = Path (argv ! 1)
               in case parse_arguments L w (drop 2 argv) (None, None, 85) of
                    Exit n w1 \<Rightarrow> (n, w1)
                  | Continue (output_dir, given_width, quality) w1 \<Rightarrow>
                      (case prompt_width L w1 isatty line given_width of
                         Exit n w2 \<Rightarrow> (n, w2)
                       | Continue max_width w2 \<Rightarrow>
                           if is_file (fs w2) input_path then
                             status_of (optimize_image L w2 input_path output_dir
                                          max_width quality)
                           else if is_dir (fs w2) input_path then
                             status_of (optimize_directory L w2 input_path output_dir
                                          max_width quality)
                           else (1, print w2 (Print_not_file_or_dir input_path)))))"

section \<open>Vocabulary of the statements\<close>

text \<open>
  \<open>grows F F'\<close>: going from \<open>F\<close> to \<open>F'\<close> only adds directories at paths that did not
  exist. \<open>reports\<close> counts the error reports among printed events: the lines
  \<^verbatim>\<open>Error: File not found\<close> and \<^verbatim>\<open>Error processing\<close>.
\<close>

definition grows :: "filesystem \<Rightarrow> filesystem \<Rightarrow> bool" where
  "grows F F' =
     (locked F' = locked F \<and>
      (\<forall>q. lookup F' q = lookup F q \<or> (lookup F q = None \<and> lookup F' q = Some Dir)))"

definition is_report :: "event \<Rightarrow> bool" where
  "is_report e =
     (case e of Print_file_not_found p \<Rightarrow> True | Print_error n x \<Rightarrow> True | _ \<Rightarrow> False)"

definition reports :: "event list \<Rightarrow> nat" where
  "reports evs = length (filter is_report evs)"

text \<open>The world and the exit status of a step of \<open>main\<close>.\<close>

definition step_world :: "'a step \<Rightarrow> world" where
  "step_world s = (case s of Continue x w \<Rightarrow> w | Exit n w \<Rightarrow> w)"

definition exit_status :: "'a step \<Rightarrow> nat option" where
  "exit_status s = (case s of Continue x w \<Rightarrow> None | Exit n w \<Rightarrow> Some n)"

section \<open>Concrete inputs\<close>

text \<open>
  A small library for running the model: an image file is four bytes, the width and the
  height as 16-bit big-endian numbers, and decodes to a black \<^verbatim>\<open>RGB\<close> image of that
  size; the encoder writes the same four bytes; the filter keeps the grid; \<^verbatim>\<open>int\<close>
  reads nothing.
\<close>

definition toy_decode :: "byte list \<Rightarrow> py_error + image" where
  "toy_decode bs =
     (case bs of
        [w1, w0, h1, h0] \<Rightarrow>
          Inr \<lparr>width = unat w1 * 256 + unat w0, height = unat h1 * 256 + unat h0,
               data = RGB (\<lambda>x y. (0, 0, 0))\<rparr>
      | _ \<Rightarrow> Inl UnidentifiedImageError)"

definition toy_encode :: "int \<Rightarrow> nat \<times> nat \<Rightarrow> rgb grid \<Rightarrow> py_error + byte list" where
  "toy_encode quality sz g =
     Inr [of_nat (fst sz div 256), of_nat (fst sz mod 256),
          of_nat (snd sz div 256), of_nat (snd sz mod 256)]"

definition toy :: library where
  "toy = \<lparr>decode = toy_decode, convert_RGB = (\<lambda>m raw. Inl ValueError),
          lanczos = (\<lambda>old new g. Inr g), encode_webp = toy_encode,
          py_int = (\<lambda>s. None)\<rparr>"

definition start :: "(path \<times> node) list \<Rightarrow> path set \<Rightarrow> world" where
  "start fls lck = \<lparr>fs = \<lparr>files = fls, locked = lck\<rparr>, stdout = [], calls = []\<rparr>"

text \<open>
  Worlds to run it in. A directory \<^verbatim>\<open>in\<close> with one 348 by 145 image; with a 200 by 150
  image; with a file that does not decode; with two images beside a regular file named
  \<^verbatim>\<open>out\<close>; with two images and a text file where creating \<^verbatim>\<open>out\<close> is refused; and
  with a good image, a broken one, a text file and an image with an upper-case suffix.
\<close>

definition photo_world :: world where
  "photo_world = start [([''in''], Dir), ([''in'', ''photo.png''], File [1, 92, 0, 145])] {}"

definition small_world :: world where
  "small_world = start [([''in''], Dir), ([''in'', ''small.jpg''], File [0, 200, 0, 150])] {}"

definition broken_world :: world where
  "broken_world = start [([''in''], Dir), ([''in'', ''broken.png''], File [7])] {}"

definition blocked_world :: world where
  "blocked_world =
     start [([''in''], Dir), ([''in'', ''a.png''], File [1, 92, 0, 145]),
            ([''in'', ''b.png''], File [0, 200, 0, 150]), ([''out''], File [])] {}"

definition refused_world :: world where
  "refused_world =
     start [([''in''], Dir), ([''in'', ''a.png''], File [1, 92, 0, 145]),
            ([''in'', ''b.png''], File [0, 200, 0, 150]), ([''in'', ''notes.txt''], File [7])]
           {[''out'']}"

definition mixed_world :: world where
  "mixed_world =
     start [([''in''], Dir), ([''in'', ''a.png''], File [1, 92, 0, 145]),
            ([''in'', ''broken.png''], File [7]), ([''in'', ''notes.txt''], File [7]),
            ([''in'', ''B.JPG''], File [0, 200, 0, 150])] {}"

section \<open>The file system operations\<close>

lemma lookup_put:
  "lookup (put F p n) q = (if is_root q then Some Dir else if q = p then Some n else lookup F q)"
  by (simp add: lookup_def put_def update_conv')

lemma lookup_remove:
  "lookup (remove F p) q = (if is_root q then Some Dir else if q = p then None else lookup F q)"
  by (simp add: lookup_def remove_def delete_conv')

lemma locked_put [simp]: "locked (put F p n) = locked F"
  by (simp add: put_def)

lemma locked_remove [simp]: "locked (remove F p) = locked F"
  by (simp add: remove_def)

lemma lookup_root [simp]: "is_root p \<Longrightarrow> lookup F p = Some Dir"
  by (simp add: lookup_def)

lemma grows_refl [simp]: "grows F F"
  by (simp add: grows_def)

lemma grows_trans: "grows F G \<Longrightarrow> grows G H \<Longrightarrow> grows F H"
  unfolding grows_def by (metis option.distinct(1))

lemma os_mkdir_Inr:
  "os_mkdir F p = Inr F' \<Longrightarrow> F' = put F p Dir \<and> lookup F p = None \<and> \<not> is_root p"
  by (auto simp: os_mkdir_def exists_def split: if_splits option.splits node.splits)

lemma os_mkdir_grows: "os_mkdir F p = Inr F' \<Longrightarrow> grows F F'"
  by (auto simp: grows_def lookup_put dest!: os_mkdir_Inr split: if_splits)

lemma os_mkdir_is_dir: "os_mkdir F p = Inr F' \<Longrightarrow> is_dir F' p"
  by (auto simp: is_dir_def lookup_put dest!: os_mkdir_Inr)

lemma mkdir_exist_ok_grows: "mkdir_exist_ok F p = (r, F') \<Longrightarrow> grows F F'"
  by (auto simp: mkdir_exist_ok_def os_mkdir_grows split: sum.splits if_splits)

lemma mkdir_exist_ok_is_dir: "mkdir_exist_ok F p = (None, F') \<Longrightarrow> is_dir F' p"
  by (auto simp: mkdir_exist_ok_def os_mkdir_is_dir split: sum.splits if_splits)

lemma mkdir_parents_grows: "mkdir_parents F p = (r, F') \<Longrightarrow> grows F F'"
proof (induction F p arbitrary: r F' rule: mkdir_parents.induct)
  case (1 F p)
  show ?case
  proof (cases "os_mkdir F p")
    case (Inr G)
    with "1.prems" show ?thesis
      by (simp add: mkdir_parents.simps [of F p] os_mkdir_grows)
  next
    case (Inl e)
    show ?thesis
    proof (cases "e = FileNotFoundError \<and> parent p \<noteq> p")
      case True
      obtain r1 G where rec: "mkdir_parents F (parent p) = (r1, G)"
        by (cases "mkdir_parents F (parent p)")
      from True Inl rec have g: "grows F G"
        using "1.IH" by blast
      show ?thesis
      proof (cases r1)
        case None
        with True Inl rec "1.prems" have "mkdir_exist_ok G p = (r, F')"
          by (simp add: mkdir_parents.simps [of F p])
        then show ?thesis
          using g grows_trans mkdir_exist_ok_grows by blast
      next
        case (Some e')
        with True Inl rec "1.prems" have "F' = G"
          by (simp add: mkdir_parents.simps [of F p])
        with g show ?thesis by simp
      qed
    next
      case False
      with Inl "1.prems" have "F' = F"
        by (auto simp: mkdir_parents.simps [of F p] split: if_splits)
      then show ?thesis by simp
    qed
  qed
qed

lemma mkdir_parents_is_dir: "mkdir_parents F p = (None, F') \<Longrightarrow> is_dir F' p"
  by (subst (asm) mkdir_parents.simps)
    (auto simp: os_mkdir_is_dir mkdir_exist_ok_is_dir split: sum.splits if_splits prod.splits option.splits)


lemma open_wb_Inr:
  "open_wb F p = Inr F1 \<Longrightarrow> F1 = put F p (File []) \<and> lookup F p \<noteq> Some Dir \<and> \<not> is_root p"
  by (auto simp: open_wb_def split: if_splits option.splits node.splits)

lemma save_frame:
  assumes "save L F p sz g q = (r, F')"
  shows "locked F' = locked F"
    and "x \<noteq> p \<Longrightarrow> lookup F' x = lookup F x"
    and "lookup F x = Some Dir \<Longrightarrow> lookup F' x = Some Dir"
  using assms
  by (auto simp: save_def Let_def lookup_put lookup_remove
      split: sum.splits if_splits dest!: open_wb_Inr)

lemma save_ok:
  assumes "save L F p sz g q = (None, F')"
  shows "\<exists>bs. encode_webp L q sz g = Inr bs \<and> lookup F' p = Some (File bs)"
  using assms
  by (auto simp: save_def Let_def lookup_put split: sum.splits if_splits dest!: open_wb_Inr)

section \<open>The body of optimize\_image\<close>

lemma reports_append [simp]: "reports (xs @ ys) = reports xs + reports ys"
  by (simp add: reports_def)

lemma reports_Nil [simp]: "reports [] = 0"
  by (simp add: reports_def)

lemma reports_Cons [simp]: "reports (e # es) = (if is_report e then 1 else 0) + reports es"
  by (simp add: reports_def)

lemma print_simps [simp]:
  "fs (print w e) = fs w" "calls (print w e) = calls w" "stdout (print w e) = stdout w @ [e]"
  by (simp_all add: print_def)

lemma scale_Inr:
  assumes "scale L w (ow, oh) g mw = Inr ((sz', g'), w2)"
  shows "fs w2 = fs w \<and> calls w2 = calls w \<and>
         (if mw < int ow
          then \<exists>nh. scaled_height oh ow mw = Inr nh \<and> 1 \<le> mw \<and> 1 \<le> nh \<and>
                    sz' = (nat mw, nat nh) \<and> lanczos L (ow, oh) (nat mw, nat nh) g = Inr g' \<and>
                    stdout w2 = stdout w @ [Print_resized ow oh mw nh]
          else sz' = (ow, oh) \<and> g' = g \<and> stdout w2 = stdout w @ [Print_no_resize ow oh])"
  using assms
  by (auto simp: scale_def resize_def split: if_splits sum.splits)

lemma process_frame:
  assumes "process L w ip op mw q = (r, w')"
  shows "calls w' = calls w \<and> locked (fs w') = locked (fs w) \<and>
         (\<forall>x. x \<noteq> op \<longrightarrow> lookup (fs w') x = lookup (fs w) x) \<and>
         (\<forall>x. lookup (fs w) x = Some Dir \<longrightarrow> lookup (fs w') x = Some Dir) \<and>
         reports (stdout w') = reports (stdout w)"
proof -
  let ?w1 = "print w (Print_processing (name ip))"
  have base: "calls ?w1 = calls w" "fs ?w1 = fs w" "reports (stdout ?w1) = reports (stdout w)"
    by (simp_all add: is_report_def)
  show ?thesis
  proof (cases "image_open L (fs w) ip")
    case (Inl e)
    with assms have "w' = ?w1" by (simp add: process_def Let_def)
    with base show ?thesis by simp
  next
    case img: (Inr img)
    show ?thesis
    proof (cases "to_RGB L (data img)")
      case (Inl e)
      with assms img have "w' = ?w1" by (simp add: process_def Let_def)
      with base show ?thesis by simp
    next
      case g: (Inr g)
      show ?thesis
      proof (cases "st_size (fs w) ip")
        case (Inl e)
        with assms img g have "w' = ?w1" by (simp add: process_def Let_def)
        with base show ?thesis by simp
      next
        case osz: (Inr original_size)
        show ?thesis
        proof (cases "scale L ?w1 (width img, height img) g mw")
          case (Inl e)
          with assms img g osz have "w' = ?w1" by (simp add: process_def Let_def)
          with base show ?thesis by simp
        next
          case (Inr res)
          obtain sz' g' w2 where res: "res = ((sz', g'), w2)"
            by (metis prod.exhaust)
          from scale_Inr [OF Inr [unfolded res]]
          have w2: "fs w2 = fs w" "calls w2 = calls w" "reports (stdout w2) = reports (stdout w)"
            by (auto simp: is_report_def split: if_splits)
          obtain r3 F where sv: "save L (fs w) op sz' g' q = (r3, F)"
            by (cases "save L (fs w) op sz' g' q")
          note fr = save_frame [OF sv]
          have w': "fs w' = F \<and> calls w' = calls w \<and> reports (stdout w') = reports (stdout w)"
            using assms img g osz Inr res sv w2
            by (auto simp: process_def Let_def is_report_def
                split: option.splits sum.splits if_splits)
          with fr show ?thesis by simp
        qed
      qed
    qed
  qed
qed

lemma process_ok:
  assumes "process L w ip op mw q = (None, w')"
  shows "\<exists>bs img g sz' g' w2 out.
           lookup (fs w) ip = Some (File bs) \<and> decode L bs = Inr img \<and>
           to_RGB L (data img) = Inr g \<and>
           scale L (print w (Print_processing (name ip))) (width img, height img) g mw
             = Inr ((sz', g'), w2) \<and>
           encode_webp L q sz' g' = Inr out \<and>
           lookup (fs w') op = Some (File out) \<and>
           stdout w' = stdout w2 @ [Print_sizes (length bs) (length out), Print_saved op, Print_blank]"
proof -
  let ?w1 = "print w (Print_processing (name ip))"
  from assms obtain img where img: "image_open L (fs w) ip = Inr img"
    by (cases "image_open L (fs w) ip") (auto simp: process_def Let_def)
  then obtain bs where bs: "lookup (fs w) ip = Some (File bs)" "decode L bs = Inr img"
    by (auto simp: image_open_def split: option.splits node.splits)
  from assms img obtain g where g: "to_RGB L (data img) = Inr g"
    by (cases "to_RGB L (data img)") (auto simp: process_def Let_def)
  have osz: "st_size (fs w) ip = Inr (length bs)"
    using bs by (simp add: st_size_def)
  from assms img g osz obtain sz' g' w2 where
    sc: "scale L ?w1 (width img, height img) g mw = Inr ((sz', g'), w2)"
    by (cases "scale L ?w1 (width img, height img) g mw") (auto simp: process_def Let_def)
  from scale_Inr [OF sc] have w2: "fs w2 = fs w" by simp
  from assms img g osz sc w2 obtain F where sv: "save L (fs w) op sz' g' q = (None, F)"
    by (cases "save L (fs w) op sz' g' q")
      (auto simp: process_def Let_def split: option.splits)
  from save_ok [OF sv] obtain out where
    out: "encode_webp L q sz' g' = Inr out" "lookup F op = Some (File out)"
    by blast
  have "fs w' = F \<and> stdout w' = stdout w2 @ [Print_sizes (length bs) (length out), Print_saved op, Print_blank]"
    using assms img g osz sc w2 sv out
    by (auto simp: process_def Let_def st_size_def split: if_splits)
  with bs g sc out show ?thesis by blast
qed

section \<open>Calls of optimize\_image\<close>

lemma set_output_directory_grows: "set_output_directory F od = (r, F') \<Longrightarrow> grows F F'"
  by (auto simp: set_output_directory_def mkdir_parents_grows split: option.splits if_splits)

lemma set_output_directory_is_dir:
  "set_output_directory F (Some d) = (None, F') \<Longrightarrow> d \<noteq> [] \<Longrightarrow> is_dir F' (Path d)"
  by (simp add: set_output_directory_def mkdir_parents_is_dir)

lemma grows_existing: "grows F F' \<Longrightarrow> lookup F x = Some n \<Longrightarrow> lookup F' x = Some n"
  unfolding grows_def by (metis option.distinct(1))

lemma optimize_image_cases:
  "optimize_image L w p od mw q =
     (if \<not> exists (fs w) p
      then Returned False (print (w\<lparr>calls := calls w @ [p]\<rparr>) (Print_file_not_found p))
      else (case set_output_directory (fs w) od of
              (Some e, F) \<Rightarrow> Raised e (w\<lparr>calls := calls w @ [p], fs := F\<rparr>)
            | (None, F) \<Rightarrow>
                (case process L (w\<lparr>calls := calls w @ [p], fs := F\<rparr>) p (output_path_of p od) mw q of
                   (None, w2) \<Rightarrow> Returned True w2
                 | (Some e, w2) \<Rightarrow>
                     Returned False (print (print w2 (Print_error (name p) e)) Print_blank))))"
  by (simp add: optimize_image_def Let_def)

lemma optimize_image_True:
  assumes "optimize_image L w p od mw q = Returned True w'"
  shows "\<exists>F. set_output_directory (fs w) od = (None, F) \<and> exists (fs w) p \<and>
             process L (w\<lparr>calls := calls w @ [p], fs := F\<rparr>) p (output_path_of p od) mw q = (None, w')"
  using assms unfolding optimize_image_cases
  by (auto split: if_splits prod.splits option.splits)

lemma optimize_image_saved:
  assumes "optimize_image L w p od mw q = Returned True w'"
    and "lookup (fs w) p = Some (File bs)"
  shows "\<exists>img g sz' g' out evs.
           decode L bs = Inr img \<and> to_RGB L (data img) = Inr g \<and>
           (if mw < int (width img)
            then \<exists>nh. scaled_height (height img) (width img) mw = Inr nh \<and> 1 \<le> mw \<and> 1 \<le> nh \<and>
                      sz' = (nat mw, nat nh) \<and>
                      lanczos L (width img, height img) (nat mw, nat nh) g = Inr g' \<and>
                      evs = [Print_resized (width img) (height img) mw nh]
            else sz' = (width img, height img) \<and> g' = g \<and>
                 evs = [Print_no_resize (width img) (height img)]) \<and>
           encode_webp L q sz' g' = Inr out \<and>
           lookup (fs w') (output_path_of p od) = Some (File out) \<and>
           stdout w' = stdout w @ Print_processing (name p) # evs @
             [Print_sizes (length bs) (length out), Print_saved (output_path_of p od), Print_blank]"
proof -
  from optimize_image_True [OF assms(1)] obtain F where
    F: "set_output_directory (fs w) od = (None, F)" and
    pr: "process L (w\<lparr>calls := calls w @ [p], fs := F\<rparr>) p (output_path_of p od) mw q = (None, w')"
    by blast
  have Fp: "lookup F p = Some (File bs)"
    using set_output_directory_grows [OF F] assms(2) by (rule grows_existing)
  from process_ok [OF pr] Fp obtain img g sz' g' w2 out where
    a: "decode L bs = Inr img" "to_RGB L (data img) = Inr g"
    and sc: "scale L (print (w\<lparr>calls := calls w @ [p], fs := F\<rparr>) (Print_processing (name p)))
               (width img, height img) g mw = Inr ((sz', g'), w2)"
    and b: "encode_webp L q sz' g' = Inr out"
      "lookup (fs w') (output_path_of p od) = Some (File out)"
      "stdout w' = stdout w2 @
         [Print_sizes (length bs) (length out), Print_saved (output_path_of p od), Print_blank]"
    by auto
  from scale_Inr [OF sc] a b show ?thesis
    by (cases "mw < int (width img)") auto
qed



lemma split_slash_no_slash: "CHR ''/'' \<notin> set s \<Longrightarrow> split_slash s = [s]"
  by (induction s) auto

lemma Path_component:
  assumes "CHR ''/'' \<notin> set s" and "s \<noteq> []" and "s \<noteq> ''.''"
  shows "Path s = [s]"
proof -
  from assms(1,2) have "takeWhile (\<lambda>c. c = CHR ''/'') s = []"
    by (cases s) auto
  with assms show ?thesis
    by (simp add: Path_def split_slash_no_slash)
qed

lemma joinpath_component:
  assumes "CHR ''/'' \<notin> set s" and "s \<noteq> []" and "s \<noteq> ''.''"
  shows "joinpath p s = p @ [s]"
proof -
  from assms(1) have "s \<noteq> ''/''" "s \<noteq> ''//''" by auto
  with Path_component [OF assms] show ?thesis
    by (simp add: joinpath_def)
qed

lemma output_path_inside:
  assumes "CHR ''/'' \<notin> set (stem p)"
  shows "output_path_of p od = output_dir_of p od @ [stem p @ ''.webp'']"
proof -
  have "length (stem p @ ''.webp'') \<noteq> length ''.''"
    by simp
  then have "stem p @ ''.webp'' \<noteq> ''.''"
    by metis
  with assms show ?thesis
    unfolding output_path_of_def by (intro joinpath_component) auto
qed


section \<open>The batch loop\<close>





lemma optimize_directory_dir:
  assumes "is_dir (fs w) d"
  shows "optimize_directory L w d od mw q =
     (if find_images (fs w) d = [] then Returned () (print w (Print_no_images d))
      else (case optimize_each L
                   (print (print (print (print (print (print w
                      (Print_found (length (find_images (fs w) d))))
                      (Print_input d)) (Print_output od d)) (Print_max_width mw))
                      (Print_quality q)) Print_blank)
                   (find_images (fs w) d) od mw q 0 of
              Raised e w2 \<Rightarrow> Raised e w2
            | Returned success_count w2 \<Rightarrow>
                Returned () (print w2 (Print_complete success_count
                                        (length (find_images (fs w) d))))))"
  using assms
  by (simp add: optimize_directory_def iterdir_def exists_def is_dir_def
      find_images_def [symmetric] Let_def)

section \<open>Evaluation on concrete inputs\<close>

lemma bit_length_numeral:
  "bit_length (numeral k) = Suc (bit_length (numeral k div 2))"
  by (subst bit_length.simps) simp

lemma bit_length_0: "bit_length 0 = 0"
  by (subst bit_length.simps) simp

lemma bit_length_1: "bit_length (Suc 0) = Suc 0"  "bit_length 1 = 1"
  by (subst bit_length.simps, simp add: bit_length_0)+

lemmas float_eval = bit_length_numeral bit_length_0 bit_length_1 rne_div_def fl_quot_def
  is_inf_def float_mul_def float_trunc_def scaled_height_def Let_def

lemmas path_eval = Path_def is_root_def parent_def name_def rfind_dot_def suffix_def stem_def
  joinpath_def lower_def lower_char_def supported_formats_def Let_def

lemmas fs_eval = lookup_def exists_def is_file_def is_dir_def put_def remove_def os_mkdir_def
  mkdir_exist_ok_def mkdir_parents.simps open_wb_def save_def image_open_def st_size_def
  entries_def iterdir_def

lemmas run_eval = print_def scale_def resize_def process_def output_dir_of_def
  output_path_of_def set_output_directory_def optimize_image_def to_RGB_def
  toy_def toy_decode_def toy_encode_def start_def world_of_def
  photo_world_def small_world_def broken_world_def blocked_world_def refused_world_def
  mixed_world_def

lemma scaled_height_348_145: "scaled_height 145 348 300 = Inr 124"
  by (simp add: float_eval)


lemma broken_mkdir:
  "mkdir_parents (fs broken_world) (Path ''out/deep'') =
     (None, \<lparr>files = [([''in''], Dir), ([''in'', ''broken.png''], File [7]),
                       ([''out''], Dir), ([''out'', ''deep''], Dir)],
             locked = {}\<rparr>)"
  by (simp add: run_eval fs_eval path_eval)

lemma photo_run:
  "optimize_image toy photo_world [''in'', ''photo.png''] (Some ''out'') 300 85 =
     Returned True
       \<lparr>fs = \<lparr>files = [([''in''], Dir), ([''in'', ''photo.png''], File [1, 92, 0, 145]),
                       ([''out''], Dir), ([''out'', ''photo.webp''], File [1, 44, 0, 124])],
               locked = {}\<rparr>,
        stdout = [Print_processing ''photo.png'', Print_resized 348 145 300 124,
                  Print_sizes 4 4, Print_saved [''out'', ''photo.webp''], Print_blank],
        calls = [[''in'', ''photo.png'']]\<rparr>"
  by (simp add: scaled_height_348_145 path_eval fs_eval run_eval)

lemma small_run:
  "optimize_image toy small_world [''in'', ''small.jpg''] None 300 85 =
     Returned True
       \<lparr>fs = \<lparr>files = [([''in''], Dir), ([''in'', ''small.jpg''], File [0, 200, 0, 150]),
                       ([''in'', ''small.webp''], File [0, 200, 0, 150])],
               locked = {}\<rparr>,
        stdout = [Print_processing ''small.jpg'', Print_no_resize 200 150,
                  Print_sizes 4 4, Print_saved [''in'', ''small.webp''], Print_blank],
        calls = [[''in'', ''small.jpg'']]\<rparr>"
  by (simp add: path_eval fs_eval run_eval)

section \<open>Colour conversion\<close>

lemma div255_exact: "n < 256 \<Longrightarrow> div255 (n * 255) = n"
proof -
  assume n: "n < 256"
  show ?thesis
  proof (cases "n \<le> 128")
    case True
    then have a: "(n * 255 + 128) div 256 = n" by (intro div_nat_eqI) simp_all
    have "(n + (n * 255 + 128)) div 256 = n" by (intro div_nat_eqI) simp_all
    with a show ?thesis by (simp add: div255_def Let_def)
  next
    case False
    with n have a: "(n * 255 + 128) div 256 = n - 1" by (intro div_nat_eqI) simp_all
    from False have "(n - 1 + (n * 255 + 128)) div 256 = n" by (intro div_nat_eqI) simp_all
    with a show ?thesis by (simp add: div255_def Let_def)
  qed
qed


lemma blend8_opaque: "blend8 255 c0 c = c"
proof -
  have "unat c < 256"
    using unsigned_less [of c] by simp
  then show ?thesis
    by (simp add: blend8_def div255_exact)
qed

lemma blend8_transparent: "blend8 0 255 c = 255"
  by (simp add: blend8_def div255_def)

lemma paste_alpha:
  assumes "g x y = (r, gr, b, a)"
  shows "paste (new_RGB white) g (Some (split_last g)) x y =
           (blend8 a 255 r, blend8 a 255 gr, blend8 a 255 b)"
  using assms by (simp add: paste_def split_last_def new_RGB_def white_def)

lemma RGBA_flattened:
  assumes "to_RGB L (RGBA g) = Inr g'" and "g x y = (r, gr, b, a)"
  shows "g' x y = (blend8 a 255 r, blend8 a 255 gr, blend8 a 255 b)"
    and "a = 0 \<Longrightarrow> g' x y = white"
    and "a = 255 \<Longrightarrow> g' x y = (r, gr, b)"
proof -
  from assms(1) have "g' = paste (new_RGB white) g (Some (split_last g))"
    by (simp add: to_RGB_def)
  with paste_alpha [of g x y r gr b a] assms(2)
  show px: "g' x y = (blend8 a 255 r, blend8 a 255 gr, blend8 a 255 b)"
    by simp
  show "a = 0 \<Longrightarrow> g' x y = white"
    by (simp add: px blend8_transparent white_def)
  show "a = 255 \<Longrightarrow> g' x y = (r, gr, b)"
    by (simp add: px blend8_opaque)
qed

lemma P_flattened:
  assumes "to_RGB L (P palette idx) = Inr g'" and "palette (idx x y) = (r, gr, b, a)"
  shows "g' x y = (blend8 a 255 r, blend8 a 255 gr, blend8 a 255 b)"
    and "a = 0 \<Longrightarrow> g' x y = white"
    and "a = 255 \<Longrightarrow> g' x y = (r, gr, b)"
proof -
  let ?g = "convert_RGBA palette idx"
  from assms(1) have "g' = paste (new_RGB white) ?g (Some (split_last ?g))"
    by (simp add: to_RGB_def Let_def)
  moreover from assms(2) have "?g x y = (r, gr, b, a)"
    by (simp add: convert_RGBA_def)
  ultimately show px: "g' x y = (blend8 a 255 r, blend8 a 255 gr, blend8 a 255 b)"
    using paste_alpha [of ?g x y r gr b a] by simp
  show "a = 0 \<Longrightarrow> g' x y = white"
    by (simp add: px blend8_transparent white_def)
  show "a = 255 \<Longrightarrow> g' x y = (r, gr, b)"
    by (simp add: px blend8_opaque)
qed

section \<open>Runs of the batch\<close>









lemma mixed_images:
  "find_images (fs mixed_world) [''in''] =
     [[''in'', ''a.png''], [''in'', ''broken.png''], [''in'', ''B.JPG'']]"
  by (simp add: find_images_def run_eval fs_eval path_eval)

lemma mixed_dir: "is_dir (fs mixed_world) [''in'']"
  by (simp add: run_eval fs_eval path_eval)


lemma mixed_run:
  "optimize_directory toy mixed_world [''in''] (Some ''out'') 300 85 =
     Returned ()
       \<lparr>fs = \<lparr>files = [([''in''], Dir), ([''in'', ''a.png''], File [1, 92, 0, 145]),
                       ([''in'', ''broken.png''], File [7]), ([''in'', ''notes.txt''], File [7]),
                       ([''in'', ''B.JPG''], File [0, 200, 0, 150]), ([''out''], Dir),
                       ([''out'', ''a.webp''], File [1, 44, 0, 124]),
                       ([''out'', ''B.webp''], File [0, 200, 0, 150])],
               locked = {}\<rparr>,
        stdout = [Print_found 3, Print_input [''in''], Print_output (Some ''out'') [''in''],
                  Print_max_width 300, Print_quality 85, Print_blank,
                  Print_processing ''a.png'', Print_resized 348 145 300 124,
                  Print_sizes 4 4, Print_saved [''out'', ''a.webp''], Print_blank,
                  Print_processing ''broken.png'',
                  Print_error ''broken.png'' UnidentifiedImageError, Print_blank,
                  Print_processing ''B.JPG'', Print_no_resize 200 150,
                  Print_sizes 4 4, Print_saved [''out'', ''B.webp''], Print_blank,
                  Print_complete 2 3],
        calls = [[''in'', ''a.png''], [''in'', ''broken.png''], [''in'', ''B.JPG'']]\<rparr>"
  by (simp only: optimize_directory_dir [OF mixed_dir] mixed_images)
    (simp add: scaled_height_348_145 path_eval fs_eval run_eval)



lemma photo_run_in_place:
  "optimize_image toy photo_world [''in'', ''photo.png''] None 300 85 =
     Returned True
       \<lparr>fs = \<lparr>files = [([''in''], Dir), ([''in'', ''photo.png''], File [1, 92, 0, 145]),
                       ([''in'', ''photo.webp''], File [1, 44, 0, 124])],
               locked = {}\<rparr>,
        stdout = [Print_processing ''photo.png'', Print_resized 348 145 300 124,
                  Print_sizes 4 4, Print_saved [''in'', ''photo.webp''], Print_blank],
        calls = [[''in'', ''photo.png'']]\<rparr>"
  by (simp add: scaled_height_348_145 path_eval fs_eval run_eval)

section \<open>The claims\<close>

lemma parse_arguments_fs:
  "fs (step_world (parse_arguments L w args opts)) = fs w \<and>
   exit_status (parse_arguments L w args opts) \<in> {None, Some 1}"
proof (induction L w args opts rule: parse_arguments.induct)
  case (1 L w opts)
  then show ?case by (simp add: step_world_def exit_status_def)
next
  case (2 L w a opts)
  then show ?case by (simp add: step_world_def exit_status_def)
next
  case (3 L w a v rest output_dir max_width quality)
  show ?case
  proof (cases "a = ''--output''")
    case True
    with "3.IH"(1) [OF True] show ?thesis
      by (simp only: parse_arguments.simps if_True simp_thms)
  next
    case f1: False
    show ?thesis
    proof (cases "a = ''--width''")
      case True
      show ?thesis
      proof (cases "py_int L v")
        case None
        with f1 True show ?thesis
          by (simp only: parse_arguments.simps if_True if_False option.case simp_thms)
            (simp add: step_world_def exit_status_def)
      next
        case (Some n)
        show ?thesis
        proof (cases "n \<le> 0")
          case le: True
          with f1 True Some show ?thesis
            by (simp only: parse_arguments.simps if_True if_False option.case simp_thms)
              (simp add: step_world_def exit_status_def)
        next
          case False
          with f1 True Some "3.IH"(2) [OF f1 True Some False] show ?thesis
            by (simp only: parse_arguments.simps if_True if_False option.case simp_thms)
        qed
      qed
    next
      case f2: False
      show ?thesis
      proof (cases "a = ''--quality''")
        case True
        show ?thesis
        proof (cases "py_int L v")
          case None
          with f1 f2 True show ?thesis
            by (simp only: parse_arguments.simps if_True if_False option.case simp_thms)
              (simp add: step_world_def exit_status_def)
        next
          case (Some n)
          show ?thesis
          proof (cases "\<not> (0 \<le> n \<and> n \<le> 100)")
            case bad: True
            with f1 f2 True Some show ?thesis
              by (simp only: parse_arguments.simps if_True if_False option.case simp_thms)
                (simp add: step_world_def exit_status_def)
          next
            case False
            with f1 f2 True Some "3.IH"(3) [OF f1 f2 True Some False] show ?thesis
              by (simp only: parse_arguments.simps if_True if_False option.case simp_thms)
          qed
        qed
      next
        case f3: False
        with f1 f2 "3.IH"(4) [OF f1 f2 f3] show ?thesis
          by (simp only: parse_arguments.simps if_True if_False simp_thms) simp
      qed
    qed
  qed
qed

lemma prompt_width_fs:
  "fs (step_world (prompt_width L w tty line mw)) = fs w \<and>
   exit_status (prompt_width L w tty line mw) \<in> {None, Some 1}"
  by (simp add: prompt_width_def Let_def step_world_def exit_status_def split: option.split)


text \<open>
  C7. When the input path does not exist, \<open>optimize_image\<close> prints the
  file-not-found report and returns \<open>False\<close>, leaving the file system as it was (no
  file written, no directory made); and \<open>main\<close>, called with that path as its first
  argument, ends with exit status 1 and the same file system, whatever the other
  arguments, the terminal and the input line are.
\<close>

theorem missing_input_fails:
  assumes "\<not> exists (fs w) p"
  shows "optimize_image L w p od mw q =
           Returned False (print (w\<lparr>calls := calls w @ [p]\<rparr>) (Print_file_not_found p)) \<and>
         fs (world_of (optimize_image L w p od mw q)) = fs w \<and>
         (\<forall>argv tty line. 2 \<le> length argv \<and> Path (argv ! 1) = p \<longrightarrow>
            fst (main L w argv tty line) = 1 \<and> fs (snd (main L w argv tty line)) = fs w)"
proof (intro conjI allI impI)
  show a: "optimize_image L w p od mw q =
           Returned False (print (w\<lparr>calls := calls w @ [p]\<rparr>) (Print_file_not_found p))"
    using assms by (simp add: optimize_image_cases)
  show "fs (world_of (optimize_image L w p od mw q)) = fs w"
    by (simp add: a world_of_def)
next
  fix argv tty line
  assume h: "2 \<le> length argv \<and> Path (argv ! 1) = p"
  let ?w = "print w Print_banner"
  have res: "fst (main L w argv tty line) = 1 \<and> fs (snd (main L w argv tty line)) = fs w"
  proof (cases "parse_arguments L ?w (drop 2 argv) (None, None, 85)")
    case (Exit n w1)
    with parse_arguments_fs [of L ?w "drop 2 argv" "(None, None, 85)"] h
    show ?thesis by (simp add: main_def Let_def step_world_def exit_status_def)
  next
    case (Continue opts w1)
    obtain output_dir given_width quality where opts: "opts = (output_dir, given_width, quality)"
      by (cases opts)
    from Continue parse_arguments_fs [of L ?w "drop 2 argv" "(None, None, 85)"]
    have w1: "fs w1 = fs w" by (simp add: step_world_def)
    show ?thesis
    proof (cases "prompt_width L w1 tty line given_width")
      case (Exit n w2)
      with prompt_width_fs [of L w1 tty line given_width] w1 Continue opts h
      show ?thesis by (simp add: main_def Let_def step_world_def exit_status_def)
    next
      case c2: (Continue max_width w2)
      with prompt_width_fs [of L w1 tty line given_width] w1
      have w2: "fs w2 = fs w" by (simp add: step_world_def)
      with assms h have "\<not> is_file (fs w2) (Path (argv ! 1))" "\<not> is_dir (fs w2) (Path (argv ! 1))"
        by (auto simp: is_file_def is_dir_def exists_def)
      with Continue opts c2 h w2 show ?thesis by (simp add: main_def Let_def)
    qed
  qed
  from res show "fst (main L w argv tty line) = 1" ..
  from res show "fs (snd (main L w argv tty line)) = fs w" ..
qed

theorem missing_input_fails_witness:
  "\<not> exists (fs (start [] {})) [''missing.png''] \<and>
   optimize_image toy (start [] {}) [''missing.png''] (Some ''out'') 300 85 =
     Returned False \<lparr>fs = \<lparr>files = [], locked = {}\<rparr>,
                     stdout = [Print_file_not_found [''missing.png'']],
                     calls = [[''missing.png'']]\<rparr> \<and>
   fst (main toy (start [] {}) [''optimize-images.py'', ''missing.png'', ''--output'', ''out'']
          False None) = 1 \<and>
   fs (snd (main toy (start [] {}) [''optimize-images.py'', ''missing.png'', ''--output'', ''out'']
          False None)) = \<lparr>files = [], locked = {}\<rparr>"
proof -
  have h: "\<not> exists (fs (start [] {})) [''missing.png'']"
    by (simp add: start_def fs_eval path_eval)
  have p: "Path ''missing.png'' = [''missing.png'']"
    by (simp add: path_eval)
  note t = missing_input_fails [OF h, of toy "Some ''out''" 300 85]
  from t have a: "optimize_image toy (start [] {}) [''missing.png''] (Some ''out'') 300 85 =
     Returned False (print ((start [] {})\<lparr>calls := calls (start [] {}) @ [[''missing.png'']]\<rparr>)
                       (Print_file_not_found [''missing.png'']))"
    by blast
  from t have "\<forall>argv tty line. 2 \<le> length argv \<and> Path (argv ! 1) = [''missing.png''] \<longrightarrow>
            fst (main toy (start [] {}) argv tty line) = 1 \<and>
            fs (snd (main toy (start [] {}) argv tty line)) = fs (start [] {})"
    by blast
  from this [rule_format, of "[''optimize-images.py'', ''missing.png'', ''--output'', ''out'']" False None] p
  have b: "fst (main toy (start [] {}) [''optimize-images.py'', ''missing.png'', ''--output'', ''out'']
          False None) = 1 \<and>
   fs (snd (main toy (start [] {}) [''optimize-images.py'', ''missing.png'', ''--output'', ''out'']
          False None)) = fs (start [] {})"
    by simp
  from h a b show ?thesis
    by (simp add: start_def print_def)
qed

text \<open>
  C8. When a directory holds no regular file with a supported suffix,
  \<open>optimize_directory\<close> prints that no images were found and returns normally; the
  world it returns differs from the one it was given by that one printed line only, so
  \<open>optimize_image\<close> has not been called and the file system is unchanged.
\<close>

theorem no_images_found:
  assumes "is_dir (fs w) d" and "find_images (fs w) d = []"
  shows "optimize_directory L w d od mw q = Returned () (print w (Print_no_images d)) \<and>
         calls (print w (Print_no_images d)) = calls w \<and>
         fs (print w (Print_no_images d)) = fs w"
  using assms by (simp add: optimize_directory_dir)

theorem no_images_found_witness:
  "is_dir (fs (start [([''docs''], Dir), ([''docs'', ''notes.txt''], File [1])] {})) [''docs''] \<and>
   find_images (fs (start [([''docs''], Dir), ([''docs'', ''notes.txt''], File [1])] {})) [''docs''] = [] \<and>
   optimize_directory toy (start [([''docs''], Dir), ([''docs'', ''notes.txt''], File [1])] {})
       [''docs''] None 300 85 =
     Returned () \<lparr>fs = \<lparr>files = [([''docs''], Dir), ([''docs'', ''notes.txt''], File [1])],
                          locked = {}\<rparr>,
                  stdout = [Print_no_images [''docs'']], calls = []\<rparr>"
proof -
  let ?w = "start [([''docs''], Dir), ([''docs'', ''notes.txt''], File [1])] {}"
  have h1: "is_dir (fs ?w) [''docs'']"
    by (simp add: start_def fs_eval path_eval)
  have h2: "find_images (fs ?w) [''docs''] = []"
    by (simp add: start_def find_images_def fs_eval path_eval)
  from no_images_found [OF h1 h2, of toy None 300 85] h1 h2 show ?thesis
    by (simp add: start_def print_def)
qed



text \<open>
  C9. The input exists but does not decode, and a non-empty output directory is
  supplied that does not exist yet. Then the directory is made before the decoder
  runs: if \<^verbatim>\<open>mkdir\<close> succeeds, the call prints the error report and returns \<open>False\<close> in
  the file system that \<^verbatim>\<open>mkdir\<close> left, where the output directory now is a directory
  and which differs from the old one by added directories only (no output file); if
  \<^verbatim>\<open>mkdir\<close> itself raises, that exception leaves the call and nothing is decoded.
\<close>

theorem output_directory_made_before_decoding:
  assumes "lookup (fs w) p = Some (File bs)" and "decode L bs = Inl e"
    and "d \<noteq> []" and "\<not> exists (fs w) (Path d)"
  shows "case mkdir_parents (fs w) (Path d) of
           (None, F) \<Rightarrow>
             optimize_image L w p (Some d) mw q =
               Returned False
                 \<lparr>fs = F,
                  stdout = stdout w @
                    [Print_processing (name p), Print_error (name p) e, Print_blank],
                  calls = calls w @ [p]\<rparr> \<and>
             is_dir F (Path d) \<and> grows (fs w) F
         | (Some e', F) \<Rightarrow>
             optimize_image L w p (Some d) mw q =
               Raised e' \<lparr>fs = F, stdout = stdout w, calls = calls w @ [p]\<rparr>"
proof -
  obtain r F where F: "mkdir_parents (fs w) (Path d) = (r, F)"
    by (cases "mkdir_parents (fs w) (Path d)")
  have ex: "exists (fs w) p"
    using assms(1) by (simp add: exists_def)
  have sod: "set_output_directory (fs w) (Some d) = (r, F)"
    using assms(3) F by (simp add: set_output_directory_def)
  show ?thesis
  proof (cases r)
    case (Some e')
    with ex sod F show ?thesis
      by (simp add: optimize_image_cases)
  next
    case None
    from mkdir_parents_grows [OF F] have g: "grows (fs w) F" .
    then have "lookup F p = Some (File bs)"
      using assms(1) by (rule grows_existing)
    with assms(2) have
      "process L (w\<lparr>calls := calls w @ [p], fs := F\<rparr>) p (output_path_of p (Some d)) mw q =
         (Some e, print (w\<lparr>calls := calls w @ [p], fs := F\<rparr>) (Print_processing (name p)))"
      by (simp add: process_def image_open_def Let_def)
    with ex sod None F g mkdir_parents_is_dir [of "fs w" "Path d" F] show ?thesis
      by (simp add: optimize_image_cases print_def)
  qed
qed

theorem output_directory_made_before_decoding_witness:
  "lookup (fs broken_world) [''in'', ''broken.png''] = Some (File [7]) \<and>
   decode toy [7] = Inl UnidentifiedImageError \<and>
   \<not> exists (fs broken_world) (Path ''out/deep'') \<and>
   optimize_image toy broken_world [''in'', ''broken.png''] (Some ''out/deep'') 300 85 =
     Returned False
       \<lparr>fs = \<lparr>files = [([''in''], Dir), ([''in'', ''broken.png''], File [7]),
                       ([''out''], Dir), ([''out'', ''deep''], Dir)],
               locked = {}\<rparr>,
        stdout = [Print_processing ''broken.png'',
                  Print_error ''broken.png'' UnidentifiedImageError, Print_blank],
        calls = [[''in'', ''broken.png'']]\<rparr>"
proof -
  have h1: "lookup (fs broken_world) [''in'', ''broken.png''] = Some (File [7])"
    by (simp add: run_eval fs_eval path_eval)
  have h2: "decode toy [7] = Inl UnidentifiedImageError"
    by (simp add: run_eval)
  have h3: "''out/deep'' \<noteq> []" by simp
  have h4: "\<not> exists (fs broken_world) (Path ''out/deep'')"
    by (simp add: run_eval fs_eval path_eval)
  from output_directory_made_before_decoding [OF h1 h2 h3 h4, of 300 85] broken_mkdir
  have "optimize_image toy broken_world [''in'', ''broken.png''] (Some ''out/deep'') 300 85 =
     Returned False
       \<lparr>fs = \<lparr>files = [([''in''], Dir), ([''in'', ''broken.png''], File [7]),
                       ([''out''], Dir), ([''out'', ''deep''], Dir)],
               locked = {}\<rparr>,
        stdout = stdout broken_world @ [Print_processing (name [''in'', ''broken.png'']),
                  Print_error (name [''in'', ''broken.png'']) UnidentifiedImageError, Print_blank],
        calls = calls broken_world @ [[''in'', ''broken.png'']]\<rparr>"
    by simp
  with h1 h2 h4 show ?thesis
    by (simp add: broken_world_def start_def name_def is_root_def)
qed

text \<open>
  C6. The output path is the output directory joined with the stem of the input
  followed by \<^verbatim>\<open>.webp\<close>. The output directory is the supplied one when the argument is
  a non-empty string (the test \<^verbatim>\<open>if output_dir:\<close>), and the parent of the input when
  it is \<^verbatim>\<open>None\<close> or empty. A call on an existing input that returns has made the
  supplied directory; a successful call has written a regular file at the output path
  and printed that path. As a stem holds no slash, the output path lies directly in
  the output directory.
\<close>

theorem output_path_resolution:
  "(od = None \<or> od = Some [] \<longrightarrow>
      output_path_of p od = joinpath (parent p) (stem p @ ''.webp'')) \<and>
   (\<forall>d. od = Some d \<and> d \<noteq> [] \<longrightarrow>
      output_path_of p od = joinpath (Path d) (stem p @ ''.webp'') \<and>
      (\<forall>b w'. exists (fs w) p \<and> optimize_image L w p od mw q = Returned b w' \<longrightarrow>
         is_dir (fs w') (Path d))) \<and>
   (CHR ''/'' \<notin> set (stem p) \<longrightarrow>
      output_path_of p od = output_dir_of p od @ [stem p @ ''.webp'']) \<and>
   (\<forall>w'. optimize_image L w p od mw q = Returned True w' \<longrightarrow>
      is_file (fs w') (output_path_of p od) \<and>
      Print_saved (output_path_of p od) \<in> set (stdout w'))"
proof (intro conjI allI impI)
  assume "od = None \<or> od = Some []"
  then show "output_path_of p od = joinpath (parent p) (stem p @ ''.webp'')"
    by (auto simp: output_path_of_def output_dir_of_def)
next
  fix d assume "od = Some d \<and> d \<noteq> []"
  then show "output_path_of p od = joinpath (Path d) (stem p @ ''.webp'')"
    by (auto simp: output_path_of_def output_dir_of_def)
next
  fix d b w'
  assume d: "od = Some d \<and> d \<noteq> []"
    and r: "exists (fs w) p \<and> optimize_image L w p od mw q = Returned b w'"
  obtain r1 F where F: "set_output_directory (fs w) od = (r1, F)"
    by (cases "set_output_directory (fs w) od")
  from r F have r1: "r1 = None"
    by (cases r1) (auto simp: optimize_image_cases)
  with F d have dir: "is_dir F (Path d)"
    by (simp add: set_output_directory_is_dir)
  obtain r2 w2 where pr:
    "process L (w\<lparr>calls := calls w @ [p], fs := F\<rparr>) p (output_path_of p od) mw q = (r2, w2)"
    by (cases "process L (w\<lparr>calls := calls w @ [p], fs := F\<rparr>) p (output_path_of p od) mw q")
  from process_frame [OF pr] dir have "is_dir (fs w2) (Path d)"
    by (simp add: is_dir_def)
  moreover from r F r1 pr have "fs w' = fs w2"
    by (cases r2) (auto simp: optimize_image_cases)
  ultimately show "is_dir (fs w') (Path d)" by simp
next
  assume "CHR ''/'' \<notin> set (stem p)"
  then show "output_path_of p od = output_dir_of p od @ [stem p @ ''.webp'']"
    by (rule output_path_inside)
next
  fix w'
  assume "optimize_image L w p od mw q = Returned True w'"
  from optimize_image_True [OF this] obtain F where
    "process L (w\<lparr>calls := calls w @ [p], fs := F\<rparr>) p (output_path_of p od) mw q = (None, w')"
    by blast
  from process_ok [OF this] obtain out where
    o: "lookup (fs w') (output_path_of p od) = Some (File out)"
      "Print_saved (output_path_of p od) \<in> set (stdout w')"
    by auto
  from o(1) show "is_file (fs w') (output_path_of p od)"
    by (simp add: is_file_def)
  from o(2) show "Print_saved (output_path_of p od) \<in> set (stdout w')" .
qed

theorem output_path_resolution_witness:
  "output_path_of [''in'', ''photo.png''] (Some ''out'') =
     joinpath (Path ''out'') (stem [''in'', ''photo.png''] @ ''.webp'') \<and>
   output_path_of [''in'', ''photo.png''] (Some ''out'') = [''out'', ''photo.webp''] \<and>
   output_path_of [''in'', ''photo.png''] None = [''in'', ''photo.webp''] \<and>
   is_dir (fs (world_of (optimize_image toy photo_world [''in'', ''photo.png''] (Some ''out'') 300 85)))
     (Path ''out'') \<and>
   is_file (fs (world_of (optimize_image toy photo_world [''in'', ''photo.png''] (Some ''out'') 300 85)))
     [''out'', ''photo.webp'']"
proof -
  let ?p = "[''in'', ''photo.png'']"
  let ?r = "optimize_image toy photo_world ?p (Some ''out'') 300 85"
  note t = output_path_resolution [of "Some ''out''" ?p photo_world toy 300 85]
  note n = output_path_resolution [of None ?p photo_world toy 300 85]
  have ex: "exists (fs photo_world) ?p"
    by (simp add: run_eval fs_eval path_eval)
  have st: "CHR ''/'' \<notin> set (stem ?p)"
    by (simp add: path_eval)
  from t have a: "output_path_of ?p (Some ''out'') = joinpath (Path ''out'') (stem ?p @ ''.webp'')"
    by simp
  from t st have b: "output_path_of ?p (Some ''out'') = output_dir_of ?p (Some ''out'') @ [stem ?p @ ''.webp'']"
    by blast
  from n st have c: "output_path_of ?p None = output_dir_of ?p None @ [stem ?p @ ''.webp'']"
    by blast
  from t have "\<forall>b w'. exists (fs photo_world) ?p \<and> ?r = Returned b w' \<longrightarrow>
      is_dir (fs w') (Path ''out'')"
    by blast
  with ex photo_run have d: "is_dir (fs (world_of ?r)) (Path ''out'')"
    by (auto simp: world_of_def)
  from t have "\<forall>w'. ?r = Returned True w' \<longrightarrow>
      is_file (fs w') (output_path_of ?p (Some ''out''))"
    by blast
  with photo_run have e: "is_file (fs (world_of ?r)) (output_path_of ?p (Some ''out''))"
    by (simp add: world_of_def)
  from a b c d e show ?thesis
    by (simp add: path_eval output_dir_of_def)
qed

text \<open>
  C3. A call that succeeds on an input file that decodes has written, at the output
  path, the encoding of an image whose width is at most \<open>max_width\<close>. When the
  decoded width is at most \<open>max_width\<close>, that image has the decoded width and height
  and its pixels are those of the colour conversion, untouched by any filter, and the
  no-resize line is printed.
\<close>

theorem no_upscaling:
  assumes "optimize_image L w p od mw q = Returned True w'"
    and "lookup (fs w) p = Some (File bs)" and "decode L bs = Inr img"
  shows "\<exists>sz g out.
           encode_webp L q sz g = Inr out \<and>
           lookup (fs w') (output_path_of p od) = Some (File out) \<and>
           int (fst sz) \<le> mw \<and>
           (int (width img) \<le> mw \<longrightarrow>
              sz = (width img, height img) \<and> to_RGB L (data img) = Inr g \<and>
              Print_no_resize (width img) (height img) \<in> set (stdout w'))"
proof -
  from optimize_image_saved [OF assms(1,2)] assms(3) obtain g sz' g' out evs where
    s: "to_RGB L (data img) = Inr g"
      "if mw < int (width img)
       then \<exists>nh. scaled_height (height img) (width img) mw = Inr nh \<and> 1 \<le> mw \<and> 1 \<le> nh \<and>
                 sz' = (nat mw, nat nh) \<and>
                 lanczos L (width img, height img) (nat mw, nat nh) g = Inr g' \<and>
                 evs = [Print_resized (width img) (height img) mw nh]
       else sz' = (width img, height img) \<and> g' = g \<and>
            evs = [Print_no_resize (width img) (height img)]"
    and o: "encode_webp L q sz' g' = Inr out"
      "lookup (fs w') (output_path_of p od) = Some (File out)"
      "stdout w' = stdout w @ Print_processing (name p) # evs @
         [Print_sizes (length bs) (length out), Print_saved (output_path_of p od), Print_blank]"
    by auto
  show ?thesis
  proof (cases "mw < int (width img)")
    case True
    with s(2) have "int (fst sz') \<le> mw" by auto
    with True o show ?thesis by (intro exI [of _ sz'] exI [of _ g'] exI [of _ out]) simp
  next
    case False
    with s(2) have "sz' = (width img, height img)" "g' = g"
      "evs = [Print_no_resize (width img) (height img)]"
      by simp_all
    with False s(1) o show ?thesis
      by (intro exI [of _ sz'] exI [of _ g] exI [of _ out]) simp
  qed
qed

theorem no_upscaling_witness:
  "lookup (fs small_world) [''in'', ''small.jpg''] = Some (File [0, 200, 0, 150]) \<and>
   (\<exists>g. decode toy [0, 200, 0, 150] = Inr \<lparr>width = 200, height = 150, data = g\<rparr>) \<and>
   (\<exists>w'. optimize_image toy small_world [''in'', ''small.jpg''] None 300 85 = Returned True w' \<and>
      (\<exists>sz g out. encode_webp toy 85 sz g = Inr out \<and>
         lookup (fs w') [''in'', ''small.webp''] = Some (File out) \<and>
         int (fst sz) \<le> 300 \<and> sz = (200, 150)))"
proof -
  have h2: "lookup (fs small_world) [''in'', ''small.jpg''] = Some (File [0, 200, 0, 150])"
    by (simp add: run_eval fs_eval path_eval)
  have h3: "decode toy [0, 200, 0, 150] =
      Inr \<lparr>width = 200, height = 150, data = RGB (\<lambda>x y. (0, 0, 0))\<rparr>"
    by (simp add: run_eval)
  have op: "output_path_of [''in'', ''small.jpg''] None = [''in'', ''small.webp'']"
    by (simp add: path_eval run_eval)
  from no_upscaling [OF small_run h2 h3] op have
    "\<exists>sz g out. encode_webp toy 85 sz g = Inr out \<and>
       lookup (fs \<lparr>fs = \<lparr>files = [([''in''], Dir), ([''in'', ''small.jpg''], File [0, 200, 0, 150]),
                       ([''in'', ''small.webp''], File [0, 200, 0, 150])],
               locked = {}\<rparr>,
        stdout = [Print_processing ''small.jpg'', Print_no_resize 200 150,
                  Print_sizes 4 4, Print_saved [''in'', ''small.webp''], Print_blank],
        calls = [[''in'', ''small.jpg'']]\<rparr>) [''in'', ''small.webp''] = Some (File out) \<and>
       int (fst sz) \<le> 300 \<and> sz = (200, 150)"
    by auto
  with small_run h2 h3 show ?thesis by blast
qed

text \<open>
  C2. For an \<^verbatim>\<open>RGBA\<close> or \<^verbatim>\<open>P\<close> image the alpha band is the mask of \<^verbatim>\<open>paste\<close>
  (\<open>RGBA_flattened\<close>, \<open>P_flattened\<close>). For an \<^verbatim>\<open>LA\<close> image the script passes
  \<^verbatim>\<open>mask=None\<close>, so the alpha band is never read: every pixel comes out as its luminance
  in the three channels. A fully transparent black pixel becomes black, not white.
\<close>

theorem LA_alpha_is_ignored:
  "to_RGB L (LA g) = Inr (\<lambda>x y. (fst (g x y), fst (g x y), fst (g x y))) \<and>
   to_RGB L (LA (\<lambda>x y. (0, 0))) = Inr (\<lambda>x y. (0, 0, 0)) \<and>
   (0, 0, 0) \<noteq> white"
  by (simp add: to_RGB_def paste_def storage_LA_def white_def split_beta)







text \<open>
  C1. A call that succeeds on an input file that decodes to an image wider than
  \<open>max_width\<close> has written, at the output path, the encoding of the Lanczos-filtered
  image of width \<open>max_width\<close> and of height
  \<^verbatim>\<open>int(original_height * (max_width / original_width))\<close> as double-precision
  arithmetic gives it (\<open>scaled_height\<close>); both are at least 1, and the resize line is
  printed.
\<close>

theorem resized_to_max_width:
  assumes "optimize_image L w p od mw q = Returned True w'"
    and "lookup (fs w) p = Some (File bs)" and "decode L bs = Inr img"
    and "mw < int (width img)"
  shows "\<exists>nh g g' out.
           scaled_height (height img) (width img) mw = Inr nh \<and> 1 \<le> mw \<and> 1 \<le> nh \<and>
           to_RGB L (data img) = Inr g \<and>
           lanczos L (width img, height img) (nat mw, nat nh) g = Inr g' \<and>
           encode_webp L q (nat mw, nat nh) g' = Inr out \<and>
           lookup (fs w') (output_path_of p od) = Some (File out) \<and>
           Print_resized (width img) (height img) mw nh \<in> set (stdout w')"
proof -
  from optimize_image_saved [OF assms(1,2)] assms(3,4) obtain g sz' g' out evs nh where
    "to_RGB L (data img) = Inr g"
    "scaled_height (height img) (width img) mw = Inr nh" "1 \<le> mw" "1 \<le> nh"
    "sz' = (nat mw, nat nh)"
    "lanczos L (width img, height img) (nat mw, nat nh) g = Inr g'"
    "evs = [Print_resized (width img) (height img) mw nh]"
    "encode_webp L q sz' g' = Inr out"
    "lookup (fs w') (output_path_of p od) = Some (File out)"
    "stdout w' = stdout w @ Print_processing (name p) # evs @
       [Print_sizes (length bs) (length out), Print_saved (output_path_of p od), Print_blank]"
    by auto
  then show ?thesis
    by (intro exI [of _ nh] exI [of _ g] exI [of _ g'] exI [of _ out]) simp
qed

theorem resized_to_max_width_witness:
  "lookup (fs photo_world) [''in'', ''photo.png''] = Some (File [1, 92, 0, 145]) \<and>
   decode toy [1, 92, 0, 145] =
     Inr \<lparr>width = 348, height = 145, data = RGB (\<lambda>x y. (0, 0, 0))\<rparr> \<and>
   (300 :: int) < int 348 \<and>
   (\<exists>w'. optimize_image toy photo_world [''in'', ''photo.png''] None 300 85 = Returned True w' \<and>
      (\<exists>g' out. scaled_height 145 348 300 = Inr 124 \<and>
         encode_webp toy 85 (300, 124) g' = Inr out \<and>
         lookup (fs w') [''in'', ''photo.webp''] = Some (File out)))"
proof -
  have h2: "lookup (fs photo_world) [''in'', ''photo.png''] = Some (File [1, 92, 0, 145])"
    by (simp add: run_eval fs_eval path_eval)
  have h3: "decode toy [1, 92, 0, 145] =
      Inr \<lparr>width = 348, height = 145, data = RGB (\<lambda>x y. (0, 0, 0))\<rparr>"
    by (simp add: run_eval)
  have h4: "300 < int (width \<lparr>width = 348, height = 145, data = RGB (\<lambda>x y. (0, 0, 0))\<rparr>)"
    by simp
  have op: "output_path_of [''in'', ''photo.png''] None = [''in'', ''photo.webp'']"
    by (simp add: path_eval run_eval)
  from resized_to_max_width [OF photo_run_in_place h2 h3 h4] op scaled_height_348_145
  have "\<exists>g' out. scaled_height 145 348 300 = Inr 124 \<and>
         encode_webp toy 85 (300, 124) g' = Inr out \<and>
         lookup (fs \<lparr>fs = \<lparr>files = [([''in''], Dir), ([''in'', ''photo.png''], File [1, 92, 0, 145]),
                       ([''in'', ''photo.webp''], File [1, 44, 0, 124])],
               locked = {}\<rparr>,
        stdout = [Print_processing ''photo.png'', Print_resized 348 145 300 124,
                  Print_sizes 4 4, Print_saved [''in'', ''photo.webp''], Print_blank],
        calls = [[''in'', ''photo.png'']]\<rparr>) [''in'', ''photo.webp''] = Some (File out)"
    by auto
  with photo_run_in_place h2 h3 show ?thesis by auto
qed

text \<open>
  The claim as stated fails on a 348 by 145 image with \<open>max_width = 300\<close>: the exact
  quotient \<open>145 * 300 / 348\<close> is 125, but the double nearest to \<open>300 / 348\<close> lies below
  it and the product rounds to a double just under 125, which \<^verbatim>\<open>int\<close> truncates to 124.
  The file written is the 300 by 124 image.
\<close>

theorem height_below_exact_floor:
  "decode toy [1, 92, 0, 145] =
     Inr \<lparr>width = 348, height = 145, data = RGB (\<lambda>x y. (0, 0, 0))\<rparr> \<and>
   optimize_image toy photo_world [''in'', ''photo.png''] None 300 85 =
     Returned True
       \<lparr>fs = \<lparr>files = [([''in''], Dir), ([''in'', ''photo.png''], File [1, 92, 0, 145]),
                       ([''in'', ''photo.webp''], File [1, 44, 0, 124])],
               locked = {}\<rparr>,
        stdout = [Print_processing ''photo.png'', Print_resized 348 145 300 124,
                  Print_sizes 4 4, Print_saved [''in'', ''photo.webp''], Print_blank],
        calls = [[''in'', ''photo.png'']]\<rparr> \<and>
   decode toy [1, 44, 0, 124] =
     Inr \<lparr>width = 300, height = 124, data = RGB (\<lambda>x y. (0, 0, 0))\<rparr> \<and>
   (145 * 300) div 348 = (125 :: nat) \<and> (124 :: nat) \<noteq> (145 * 300) div 348"
  by (simp add: photo_run_in_place) (simp add: toy_def toy_decode_def)

end
